theory Spec2Isabelle
  imports Complex_Main
begin

section \<open>The file loader backend: data model\<close>

text \<open>
  The embedding follows \<^verbatim>\<open>source/loaders/file_loader/source/file_loader_impl.c\<close>.
  A C string is a \<^typ>\<open>string\<close> holding the bytes before the terminating NUL.
  A \<^verbatim>\<open>vector\<close> is a list, \<^verbatim>\<open>vector_size\<close> its length, and inserting an
  empty slot at the end and filling it is an append. A pointer that may be \<^verbatim>\<open>NULL\<close>
  is an \<^typ>\<open>'a option\<close>. The fixed-size buffers of \<^verbatim>\<open>loader_naming.h\<close> are declared
  outside the sources; paths are taken to fit them, and the one cut the backend makes itself,
  \<^verbatim>\<open>strncpy\<close> into a descriptor of \<^verbatim>\<open>LOADER_IMPL_FILE_SIZE\<close> bytes, is modelled.
\<close>

record loader_impl_file_descriptor =
  path :: string
  length_d :: nat

record loader_impl_file =
  execution_paths :: "string list"

record loader_impl_file_handle =
  paths :: "loader_impl_file_descriptor list"

record loader_impl_file_function =
  descriptor :: loader_impl_file_descriptor

text \<open>
  Modelled from the spec: the type ids of the value model (section 3, Value);
  \<^verbatim>\<open>reflect_type.h\<close> is not among the sources.
\<close>

datatype type_id =
  TYPE_BOOL | TYPE_CHAR | TYPE_SHORT | TYPE_INT | TYPE_LONG | TYPE_FLOAT | TYPE_DOUBLE
  | TYPE_STRING | TYPE_BUFFER | TYPE_ARRAY | TYPE_MAP | TYPE_PTR | TYPE_FUTURE
  | TYPE_FUNCTION | TYPE_NULL | TYPE_CLASS | TYPE_OBJECT | TYPE_EXCEPTION | TYPE_THROWABLE

text \<open>Modelled from the spec: a type (section 3, Type) as far as the backend uses it, an
  id and a name.\<close>

record type_t =
  type_index :: type_id
  type_name :: string

text \<open>
  Modelled from the spec: a loader instance as far as the backend sees it (section 3,
  Loader instance): its tag, the backend's private data returned by
  \<^verbatim>\<open>loader_impl_get\<close>, and its type registry keyed by name; \<^verbatim>\<open>loader_impl.c\<close>
  is not among the sources.
\<close>

record loader_impl =
  tag :: string
  data :: "loader_impl_file option"
  types :: "string \<Rightarrow> type_t option"

text \<open>Modelled from the spec: \<^verbatim>\<open>loader_impl_get\<close> hands out the backend's private data
  of the loader instance (section 3, Loader instance), null before initialization.\<close>

definition loader_impl_get :: "loader_impl \<Rightarrow> loader_impl_file option" where
  "loader_impl_get impl = data impl"

subsection \<open>The world outside the backend\<close>

text \<open>
  Modelled from the spec: the log levels (\<^verbatim>\<open>log.h\<close> is not among the sources). A
  log record keeps the level, the format string and the argument of one
  \<^verbatim>\<open>log_write\<close> call.
\<close>

datatype log_level = LOG_LEVEL_DEBUG | LOG_LEVEL_INFO | LOG_LEVEL_WARNING | LOG_LEVEL_ERROR

text \<open>The argument of a log record: the string for \<^verbatim>\<open>%s\<close> or the handle for \<^verbatim>\<open>%p\<close>.\<close>

datatype log_arg = LogString string | LogPointer "loader_impl_file_handle option"

type_synonym log_record = "log_level \<times> string \<times> log_arg"

datatype callback_kind = Resolve | Reject

text \<open>
  The effects of the backend are written into a \<open>world\<close> that every operation takes and
  returns: the log, the sequence of paths handed to \<^verbatim>\<open>stat\<close>, the number of
  allocation requests made so far, the callbacks that ran (kind and context pointer), and
  the tags passed to \<^verbatim>\<open>loader_initialization_register\<close>.
\<close>

record world =
  log_records :: "log_record list"
  stat_calls :: "string list"
  allocations :: nat
  callbacks_invoked :: "(callback_kind \<times> nat) list"
  initialized :: "string list"

text \<open>
  What the backend reads but does not own is a \<open>platform\<close>: whether \<^verbatim>\<open>stat\<close> on a
  path returns 0, the helpers of \<^verbatim>\<open>loader_path.h\<close> (not among the sources, taken as
  parameters), the process environment, which allocation requests succeed (the n-th
  request succeeds iff \<open>malloc_ok n\<close>), and the constant \<^verbatim>\<open>LOADER_IMPL_FILE_SIZE\<close>
  (\<^verbatim>\<open>PATH_MAX\<close> or \<^verbatim>\<open>MAX_PATH\<close>).
\<close>

record platform =
  file_stat :: "string \<Rightarrow> bool"
  loader_path_join :: "string \<Rightarrow> string \<Rightarrow> string"
  loader_path_get_relative :: "string \<Rightarrow> string \<Rightarrow> string"
  getenv :: "string \<Rightarrow> string option"
  malloc_ok :: "nat \<Rightarrow> bool"
  LOADER_IMPL_FILE_SIZE :: nat

text \<open>An allocation request: it succeeds or not as the platform says, and is counted.
  \<^verbatim>\<open>vector_create\<close> of \<^verbatim>\<open>adt_vector.h\<close> is one such request; \<^verbatim>\<open>free\<close> and
  \<^verbatim>\<open>vector_destroy\<close> leave no trace in the model.\<close>

definition malloc :: "platform \<Rightarrow> world \<Rightarrow> bool \<times> world" where
  "malloc pf w = (malloc_ok pf (allocations w), w\<lparr>allocations := Suc (allocations w)\<rparr>)"

definition vector_create :: "platform \<Rightarrow> world \<Rightarrow> bool \<times> world" where
  "vector_create pf w = malloc pf w"

text \<open>Modelled from the spec: \<^verbatim>\<open>log_write\<close> appends one record to the log (the
  logging transport is outside the core, section 1).\<close>

definition log_write :: "log_level \<Rightarrow> string \<Rightarrow> log_arg \<Rightarrow> world \<Rightarrow> world" where
  "log_write lvl fmt arg w = w\<lparr>log_records := log_records w @ [(lvl, fmt, arg)]\<rparr>"

text \<open>The C library's \<^verbatim>\<open>strncpy\<close> and \<^verbatim>\<open>strnlen\<close> on strings without their
  terminator: at most \<open>n\<close> bytes are copied or counted.\<close>

definition strncpy :: "string \<Rightarrow> nat \<Rightarrow> string" where
  "strncpy src n = take n src"

definition strnlen :: "string \<Rightarrow> nat \<Rightarrow> nat" where
  "strnlen s n = min (length s) n"

section \<open>Loading paths\<close>

text \<open>
  \<^verbatim>\<open>file_loader_impl_load_path\<close>: one \<^verbatim>\<open>stat\<close>; on success a descriptor with the
  path copied by \<^verbatim>\<open>strncpy\<close> is appended to the handle, a debug record is written,
  and 0 is returned; otherwise 1.
\<close>

definition file_loader_impl_load_path ::
  "platform \<Rightarrow> loader_impl_file_handle \<Rightarrow> string \<Rightarrow> world
    \<Rightarrow> int \<times> loader_impl_file_handle \<times> world" where
  "file_loader_impl_load_path pf handle p w =
     (let w1 = w\<lparr>stat_calls := stat_calls w @ [p]\<rparr> in
      if file_stat pf p then
        (let dpath = strncpy p (LOADER_IMPL_FILE_SIZE pf);
             d = \<lparr>path = dpath, length_d = strnlen dpath (LOADER_IMPL_FILE_SIZE pf)\<rparr>;
             handle1 = handle\<lparr>paths := paths handle @ [d]\<rparr>;
             w2 = log_write LOG_LEVEL_DEBUG ''File %s loaded from file'' (LogString p) w1
         in (0, handle1, w2))
      else (1, handle, w1))"

text \<open>The \<^verbatim>\<open>for\<close> loop of \<^verbatim>\<open>file_loader_impl_load_execution_path\<close> over the
  execution paths, from the current iterator on.\<close>

fun load_execution_path_loop ::
  "platform \<Rightarrow> string list \<Rightarrow> loader_impl_file_handle \<Rightarrow> string \<Rightarrow> world
    \<Rightarrow> loader_impl_file_handle \<times> world" where
  "load_execution_path_loop pf [] handle p w = (handle, w)"
| "load_execution_path_loop pf (execution_path # rest) handle p w =
     (let absolute_path = loader_path_join pf execution_path p in
      case file_loader_impl_load_path pf handle absolute_path w of
        (r, handle1, w1) \<Rightarrow>
          if r = 0 then
            (handle1, log_write LOG_LEVEL_ERROR ''File %s not found'' (LogString absolute_path) w1)
          else load_execution_path_loop pf rest handle1 p w1)"

definition file_loader_impl_load_execution_path ::
  "platform \<Rightarrow> loader_impl_file \<Rightarrow> loader_impl_file_handle \<Rightarrow> string \<Rightarrow> world
    \<Rightarrow> loader_impl_file_handle \<times> world" where
  "file_loader_impl_load_execution_path pf file_impl handle p w =
     (let size_e = length (execution_paths file_impl) in
      case file_loader_impl_load_path pf handle p w of
        (r, handle1, w1) \<Rightarrow>
          if r \<noteq> 0 \<and> size_e > 0 then
            load_execution_path_loop pf (execution_paths file_impl) handle1 p w1
          else (handle1, w1))"

text \<open>The \<^verbatim>\<open>for\<close> loop of \<^verbatim>\<open>file_loader_impl_load_from_file\<close> over the requested paths.\<close>

fun load_from_file_loop ::
  "platform \<Rightarrow> loader_impl_file \<Rightarrow> loader_impl_file_handle \<Rightarrow> string list \<Rightarrow> world
    \<Rightarrow> loader_impl_file_handle \<times> world" where
  "load_from_file_loop pf file_impl handle [] w = (handle, w)"
| "load_from_file_loop pf file_impl handle (p # ps) w =
     (case file_loader_impl_load_execution_path pf file_impl handle p w of
        (handle1, w1) \<Rightarrow> load_from_file_loop pf file_impl handle1 ps w1)"

definition file_loader_impl_load_from_file ::
  "platform \<Rightarrow> loader_impl \<Rightarrow> string list \<Rightarrow> world
    \<Rightarrow> loader_impl_file_handle option \<times> world" where
  "file_loader_impl_load_from_file pf impl ps w =
     (case loader_impl_get impl of
        None \<Rightarrow> (None, w)
      | Some file_impl \<Rightarrow>
          (case malloc pf w of
             (handle_ok, w1) \<Rightarrow>
               if handle_ok then
                 (case vector_create pf w1 of
                    (paths_ok, w2) \<Rightarrow>
                      if \<not> paths_ok then (None, w2)
                      else
                        (case load_from_file_loop pf file_impl \<lparr>paths = []\<rparr> ps w2 of
                           (handle, w3) \<Rightarrow>
                             if length (paths handle) = 0 then (None, w3)
                             else (Some handle, w3)))
               else (None, w1)))"

definition file_loader_impl_load_from_memory ::
  "platform \<Rightarrow> loader_impl \<Rightarrow> string \<Rightarrow> string \<Rightarrow> nat \<Rightarrow> world
    \<Rightarrow> loader_impl_file_handle option \<times> world" where
  "file_loader_impl_load_from_memory pf impl name buffer size_b w = (None, w)"

definition file_loader_impl_load_from_package ::
  "platform \<Rightarrow> loader_impl \<Rightarrow> string \<Rightarrow> world
    \<Rightarrow> loader_impl_file_handle option \<times> world" where
  "file_loader_impl_load_from_package pf impl p w =
     (case loader_impl_get impl of
        None \<Rightarrow> (None, w)
      | Some file_impl \<Rightarrow>
          (case malloc pf w of
             (handle_ok, w1) \<Rightarrow>
               if handle_ok then
                 (case vector_create pf w1 of
                    (paths_ok, w2) \<Rightarrow>
                      if \<not> paths_ok then (None, w2)
                      else
                        (case file_loader_impl_load_execution_path pf file_impl \<lparr>paths = []\<rparr> p w2 of
                           (handle, w3) \<Rightarrow>
                             if length (paths handle) = 0 then (None, w3)
                             else (Some handle, w3)))
               else (None, w1)))"


section \<open>Reflection: types, signatures, functions, values, scopes\<close>

text \<open>
  Modelled from the spec: the lookup in the type registry of a loader (section 4.2).
  \<^verbatim>\<open>loader_impl_type\<close> looks a name up, none when it is absent. It lives in
  \<^verbatim>\<open>loader_impl.c\<close>, which is not among the sources.
\<close>

definition loader_impl_type :: "loader_impl \<Rightarrow> string \<Rightarrow> type_t option" where
  "loader_impl_type impl name = types impl name"



text \<open>
  Modelled from the spec: a signature (section 3) as the number of parameters and the
  return type-reference, none while unresolved; \<^verbatim>\<open>reflect_signature.c\<close> is not among
  the sources.
\<close>

record signature_t =
  signature_count :: nat
  signature_return :: "type_t option"

text \<open>Modelled from the spec: \<^verbatim>\<open>signature_set_return\<close> writes the return
  type-reference, and none leaves it unresolved (section 4.3).\<close>

definition signature_set_return :: "signature_t \<Rightarrow> type_t option \<Rightarrow> signature_t" where
  "signature_set_return s t = s\<lparr>signature_return := t\<rparr>"

text \<open>
  The pointer to the function that supplies a dispatch table. The file backend passes
  \<^verbatim>\<open>&function_file_singleton\<close>, the only such pointer in the sources.
\<close>

datatype function_impl_interface_singleton = Function_file_singleton

text \<open>
  Modelled from the spec: a function (section 3) with its name, signature, backend
  implementation and dispatch table; \<^verbatim>\<open>reflect_function.c\<close> is not among the sources.
\<close>

record function_t =
  function_name :: string
  function_signature :: signature_t
  function_impl :: loader_impl_file_function
  function_singleton :: function_impl_interface_singleton

text \<open>Modelled from the spec: \<^verbatim>\<open>function_create\<close> (section 4.3) builds a function
  from a name, an arity, the implementation and the table; its signature has that many
  parameters and an unresolved return type.\<close>

definition function_create ::
  "string \<Rightarrow> nat \<Rightarrow> loader_impl_file_function \<Rightarrow> function_impl_interface_singleton \<Rightarrow> function_t" where
  "function_create name args_count impl singleton =
     \<lparr>function_name = name,
      function_signature = \<lparr>signature_count = args_count, signature_return = None\<rparr>,
      function_impl = impl,
      function_singleton = singleton\<rparr>"

text \<open>
  Modelled from the spec: values (section 3) of the kinds used here, each constructor an
  id with its payload. A finite float or double is the real number it denotes.
\<close>

datatype value_t =
  Value_bool int
  | Value_char int
  | Value_short int
  | Value_int int
  | Value_long int
  | Value_float real
  | Value_double real
  | Value_string string
  | Value_function function_t

text \<open>
  Modelled from the spec: \<^verbatim>\<open>value_create_string\<close> (section 4.1) copies the given
  number of bytes into a new cell or fails for lack of memory;
  \<^verbatim>\<open>reflect_value_type.c\<close> is not among the sources.
\<close>

definition value_create_string :: "platform \<Rightarrow> string \<Rightarrow> nat \<Rightarrow> world \<Rightarrow> value_t option \<times> world" where
  "value_create_string pf str len w =
     (case malloc pf w of
        (ok, w1) \<Rightarrow> (if ok then Some (Value_string (take len str)) else None, w1))"

text \<open>
  Modelled from the spec: a scope maps unique names to values (section 3, Scope);
  \<^verbatim>\<open>reflect_scope.c\<close> is not among the sources.
\<close>

type_synonym scope_t = "string \<Rightarrow> value_t option"

text \<open>
  Modelled from the spec: a context holds one scope (section 3, Context), which
  \<^verbatim>\<open>context_scope\<close> returns; \<^verbatim>\<open>reflect_context.c\<close> is not among the sources.
\<close>

record context_t =
  context_scope :: scope_t

text \<open>
  Modelled from the spec: \<^verbatim>\<open>scope_define\<close> rejects a name that is already bound and
  does not take the value; otherwise it binds the name (section 4.4).
\<close>

definition scope_define :: "scope_t \<Rightarrow> string \<Rightarrow> value_t \<Rightarrow> int \<times> scope_t" where
  "scope_define sp key v =
     (case sp key of
        Some _ \<Rightarrow> (1, sp)
      | None \<Rightarrow> (0, sp(key \<mapsto> v)))"

section \<open>The function interface of the file backend\<close>

type_synonym callback_t = "value_t \<Rightarrow> nat \<Rightarrow> world \<Rightarrow> value_t option \<times> world"

definition function_file_interface_create :: "function_t \<Rightarrow> loader_impl_file_function \<Rightarrow> int" where
  "function_file_interface_create func impl = 0"

definition function_file_interface_invoke ::
  "platform \<Rightarrow> function_t \<Rightarrow> loader_impl_file_function \<Rightarrow> value_t list \<Rightarrow> nat \<Rightarrow> world
    \<Rightarrow> value_t option \<times> world" where
  "function_file_interface_invoke pf func impl args size_a w =
     value_create_string pf (path (descriptor impl)) (length_d (descriptor impl)) w"

definition function_file_interface_await ::
  "platform \<Rightarrow> function_t \<Rightarrow> loader_impl_file_function \<Rightarrow> value_t list \<Rightarrow> nat
    \<Rightarrow> callback_t \<Rightarrow> callback_t \<Rightarrow> nat \<Rightarrow> world \<Rightarrow> value_t option \<times> world" where
  "function_file_interface_await pf func impl args size_a resolve_callback reject_callback ctx w =
     (None, w)"

definition function_file_interface_destroy ::
  "function_t \<Rightarrow> loader_impl_file_function option \<Rightarrow> world \<Rightarrow> world" where
  "function_file_interface_destroy func impl w = (case impl of Some _ \<Rightarrow> w | None \<Rightarrow> w)"

record function_interface =
  interface_create :: "function_t \<Rightarrow> loader_impl_file_function \<Rightarrow> int"
  interface_invoke ::
    "platform \<Rightarrow> function_t \<Rightarrow> loader_impl_file_function \<Rightarrow> value_t list \<Rightarrow> nat \<Rightarrow> world
      \<Rightarrow> value_t option \<times> world"
  interface_await ::
    "platform \<Rightarrow> function_t \<Rightarrow> loader_impl_file_function \<Rightarrow> value_t list \<Rightarrow> nat
      \<Rightarrow> callback_t \<Rightarrow> callback_t \<Rightarrow> nat \<Rightarrow> world \<Rightarrow> value_t option \<times> world"
  interface_destroy :: "function_t \<Rightarrow> loader_impl_file_function option \<Rightarrow> world \<Rightarrow> world"

definition function_file_singleton :: function_interface where
  "function_file_singleton =
     \<lparr>interface_create = function_file_interface_create,
      interface_invoke = function_file_interface_invoke,
      interface_await = function_file_interface_await,
      interface_destroy = function_file_interface_destroy\<rparr>"

text \<open>Calling through the pointer stored in a function yields its dispatch table.\<close>

fun function_interface_of :: "function_impl_interface_singleton \<Rightarrow> function_interface" where
  "function_interface_of Function_file_singleton = function_file_singleton"

section \<open>Initialization and execution paths\<close>






text \<open>
  \<^verbatim>\<open>file_loader_impl_execution_path\<close> pushes the path at the back of the vector. The
  source dereferences the backend's data unchecked; without data the model has no result.
  \<^verbatim>\<open>LOADER_NAMING_PATH_SIZE\<close> is declared outside the sources and is a parameter.
\<close>

definition file_loader_impl_execution_path ::
  "nat \<Rightarrow> loader_impl \<Rightarrow> string \<Rightarrow> (int \<times> loader_impl) option" where
  "file_loader_impl_execution_path LOADER_NAMING_PATH_SIZE impl p =
     (case loader_impl_get impl of
        None \<Rightarrow> None
      | Some file_impl \<Rightarrow>
          Some (0, impl\<lparr>data := Some (file_impl\<lparr>execution_paths :=
                  execution_paths file_impl @ [strncpy p LOADER_NAMING_PATH_SIZE]\<rparr>)\<rparr>))"

section \<open>Discovery\<close>

text \<open>
  The function that one iteration of \<^verbatim>\<open>file_loader_impl_discover\<close> builds for a
  descriptor, once the allocation of its implementation has succeeded.
\<close>

definition discover_function :: "platform \<Rightarrow> loader_impl \<Rightarrow> loader_impl_file_descriptor \<Rightarrow> function_t" where
  "discover_function pf impl d =
     (let file_function = \<lparr>descriptor = d\<rparr>;
          f = (case getenv pf ''LOADER_SCRIPT_PATH'' of
                 Some script_path \<Rightarrow>
                   function_create (loader_path_get_relative pf script_path (path d)) 0
                     file_function Function_file_singleton
               | None \<Rightarrow> function_create (path d) 0 file_function Function_file_singleton);
          s = signature_set_return (function_signature f) (loader_impl_type impl ''Path'')
      in f\<lparr>function_signature := s\<rparr>)"

fun discover_loop ::
  "platform \<Rightarrow> loader_impl \<Rightarrow> loader_impl_file_descriptor list \<Rightarrow> scope_t \<Rightarrow> world
    \<Rightarrow> scope_t \<times> world" where
  "discover_loop pf impl [] sp w = (sp, w)"
| "discover_loop pf impl (d # ds) sp w =
     (case malloc pf w of
        (ok, w1) \<Rightarrow>
          if ok then
            (let f = discover_function pf impl d in
             case scope_define sp (function_name f) (Value_function f) of
               (r, sp1) \<Rightarrow> discover_loop pf impl ds sp1 w1)
          else discover_loop pf impl ds sp w1)"

definition file_loader_impl_discover ::
  "platform \<Rightarrow> loader_impl \<Rightarrow> loader_impl_file_handle \<Rightarrow> context_t \<Rightarrow> world
    \<Rightarrow> int \<times> context_t \<times> world" where
  "file_loader_impl_discover pf impl handle ctx w =
     (let sp = context_scope ctx;
          w0 = log_write LOG_LEVEL_DEBUG ''File module %p discovering'' (LogPointer (Some handle)) w
      in case discover_loop pf impl (paths handle) sp w0 of
           (sp1, w1) \<Rightarrow> (0, ctx\<lparr>context_scope := sp1\<rparr>, w1))"

section \<open>Casting a float value\<close>

text \<open>
  Modelled from the spec: rounding toward zero, as the float to integer conversions do
  (section 4.1).
\<close>

definition truncate_toward_zero :: "real \<Rightarrow> int" where
  "truncate_toward_zero x = (if 0 \<le> x then \<lfloor>x\<rfloor> else \<lceil>x\<rceil>)"

text \<open>
  Modelled from the spec: \<^verbatim>\<open>value_create_float\<close> and \<^verbatim>\<open>value_to_bool\<close>, a typed
  constructor and a typed reader of section 4.1 (\<^verbatim>\<open>reflect_value_type.c\<close> is not among
  the sources). Reading a value of another kind has no result here.
\<close>

definition value_create_float :: "real \<Rightarrow> value_t" where
  "value_create_float x = Value_float x"

fun value_to_bool :: "value_t \<Rightarrow> int option" where
  "value_to_bool (Value_bool b) = Some b"
| "value_to_bool _ = None"

text \<open>
  Modelled from the spec: the float row of the cast table of \<^verbatim>\<open>value_type_cast\<close>
  (sections 4.1 and 8); \<^verbatim>\<open>reflect_value_type_cast.c\<close> is not among the sources, only
  its test is. To bool: 1 for any non-zero magnitude, 0 for zero. To char, short, int and
  long: truncation toward zero. To float and double: identity. The other targets are not
  described precisely enough and give no result here.
\<close>

fun value_type_cast_float :: "real \<Rightarrow> type_id \<Rightarrow> value_t option" where
  "value_type_cast_float x TYPE_BOOL = Some (Value_bool (if x \<noteq> 0 then 1 else 0))"
| "value_type_cast_float x TYPE_CHAR = Some (Value_char (truncate_toward_zero x))"
| "value_type_cast_float x TYPE_SHORT = Some (Value_short (truncate_toward_zero x))"
| "value_type_cast_float x TYPE_INT = Some (Value_int (truncate_toward_zero x))"
| "value_type_cast_float x TYPE_LONG = Some (Value_long (truncate_toward_zero x))"
| "value_type_cast_float x TYPE_FLOAT = Some (Value_float x)"
| "value_type_cast_float x TYPE_DOUBLE = Some (Value_double x)"
| "value_type_cast_float x _ = None"

text \<open>
  Modelled from the spec: \<^verbatim>\<open>value_type_cast\<close> on a float value follows the float row;
  the rows of the other kinds are not modelled and give no result here.
\<close>

fun value_type_cast :: "value_t \<Rightarrow> type_id \<Rightarrow> value_t option" where
  "value_type_cast (Value_float x) i = value_type_cast_float x i"
| "value_type_cast _ i = None"

text \<open>
  The form the specification sets the bool cast apart from: truncate first, then compare
  with zero.
\<close>

definition truncated_then_compared :: "real \<Rightarrow> int" where
  "truncated_then_compared x = (if truncate_toward_zero x \<noteq> 0 then 1 else 0)"

section \<open>Resolution as the specification words it\<close>

text \<open>
  The descriptor that \<^verbatim>\<open>file_loader_impl_load_path\<close> stores for a path that exists:
  the path cut at \<^verbatim>\<open>LOADER_IMPL_FILE_SIZE\<close> bytes and the number of bytes kept.
\<close>

definition descriptor_of :: "platform \<Rightarrow> string \<Rightarrow> loader_impl_file_descriptor" where
  "descriptor_of pf q =
     \<lparr>path = take (LOADER_IMPL_FILE_SIZE pf) q, length_d = min (length q) (LOADER_IMPL_FILE_SIZE pf)\<rparr>"

text \<open>The requested path joined against each execution path, in insertion order.\<close>

definition execution_candidates :: "platform \<Rightarrow> string list \<Rightarrow> string \<Rightarrow> string list" where
  "execution_candidates pf eps p = map (\<lambda>e. loader_path_join pf e p) eps"

text \<open>
  Specification, section 4.7, steps 1 and 2: the path as given if it opens; otherwise the
  first candidate, in insertion order of the execution paths, that opens; otherwise nothing.
\<close>

definition resolve_spec :: "platform \<Rightarrow> string list \<Rightarrow> string \<Rightarrow> string option" where
  "resolve_spec pf eps p =
     (if file_stat pf p then Some p
      else List.find (file_stat pf) (execution_candidates pf eps p))"

text \<open>The prefix of a list up to and including the first element satisfying a test.\<close>

fun upto_first :: "('a \<Rightarrow> bool) \<Rightarrow> 'a list \<Rightarrow> 'a list" where
  "upto_first P [] = []"
| "upto_first P (x # xs) = (if P x then [x] else x # upto_first P xs)"

text \<open>
  Specification, section 4.7, steps 1 and 2, as a sequence of attempts: the path as given
  first; only when that fails the candidates in order, none after the first hit.
\<close>

definition attempts_spec :: "platform \<Rightarrow> string list \<Rightarrow> string \<Rightarrow> string list" where
  "attempts_spec pf eps p =
     p # (if file_stat pf p then [] else upto_first (file_stat pf) (execution_candidates pf eps p))"

text \<open>The execution paths of a loader instance; none when the backend has no data.\<close>

definition execution_paths_of :: "loader_impl \<Rightarrow> string list" where
  "execution_paths_of impl = (case loader_impl_get impl of None \<Rightarrow> [] | Some file_impl \<Rightarrow> execution_paths file_impl)"

text \<open>
  Specification, section 8: the descriptors of a handle are those of the requested paths
  that resolve, in request order; a path that does not resolve contributes nothing.
\<close>

definition resolved_paths :: "platform \<Rightarrow> string list \<Rightarrow> string list \<Rightarrow> string list" where
  "resolved_paths pf eps ps = List.map_filter (resolve_spec pf eps) ps"

section \<open>A concrete scenario\<close>

text \<open>
  Scenario 6 of the specification: the execution path \<open>/base\<close> (after \<open>/lib\<close>), the
  file \<open>/base/x/y.txt\<close> on disk, and a file \<open>a.txt\<close> in the working directory. The
  two path helpers are given simple stand-ins: joining puts a separator between the two
  parts, and the relative path drops the longest common prefix and one separator.
\<close>

fun example_get_relative :: "string \<Rightarrow> string \<Rightarrow> string" where
  "example_get_relative (b # bs) (c # cs) =
     (if b = c then example_get_relative bs cs
      else if c = CHR ''/'' then cs else c # cs)"
| "example_get_relative [] (c # cs) = (if c = CHR ''/'' then cs else c # cs)"
| "example_get_relative bs [] = []"

definition example_platform :: platform where
  "example_platform =
     \<lparr>file_stat = (\<lambda>p. p = ''/base/x/y.txt'' \<or> p = ''a.txt''),
      loader_path_join = (\<lambda>e p. e @ ''/'' @ p),
      loader_path_get_relative = example_get_relative,
      getenv = (\<lambda>n. None),
      malloc_ok = (\<lambda>n. True),
      LOADER_IMPL_FILE_SIZE = 4096\<rparr>"

definition example_world :: world where
  "example_world =
     \<lparr>log_records = [], stat_calls = [], allocations = 0, callbacks_invoked = [],
      initialized = []\<rparr>"

definition example_impl :: loader_impl where
  "example_impl =
     \<lparr>tag = ''file'', data = Some \<lparr>execution_paths = [''/lib'', ''/base'']\<rparr>,
      types = Map.empty\<rparr>"

text \<open>
  Specification, section 6: with \<^verbatim>\<open>LOADER_SCRIPT_PATH\<close> set, the name reported for a
  descriptor is its path relative to that base path; unset, it is the stored path.
\<close>

definition discovered_name :: "platform \<Rightarrow> loader_impl_file_descriptor \<Rightarrow> string" where
  "discovered_name pf d =
     (case getenv pf ''LOADER_SCRIPT_PATH'' of
        Some script_path \<Rightarrow> loader_path_get_relative pf script_path (path d)
      | None \<Rightarrow> path d)"

text \<open>The scenario with \<^verbatim>\<open>LOADER_SCRIPT_PATH\<close> set to \<open>/base/x\<close>, a handle holding the
  descriptor of \<open>/base/x/y.txt\<close>, and an empty context.\<close>

definition example_script_platform :: platform where
  "example_script_platform =
     example_platform\<lparr>getenv :=
       (\<lambda>n. if n = ''LOADER_SCRIPT_PATH'' then Some ''/base/x'' else None)\<rparr>"

definition example_handle :: loader_impl_file_handle where
  "example_handle = \<lparr>paths = [\<lparr>path = ''/base/x/y.txt'', length_d = 13\<rparr>]\<rparr>"

definition example_context :: context_t where
  "example_context = \<lparr>context_scope = Map.empty\<rparr>"

text \<open>
  Specification, section 4.3, on await: exactly one of the two callbacks is invoked, at
  most once, with the context pointer passed through. Read on the record of callbacks
  that ran: the call adds one entry, a resolve or a reject, carrying that pointer.
\<close>

definition exactly_one_callback :: "nat \<Rightarrow> world \<Rightarrow> world \<Rightarrow> bool" where
  "exactly_one_callback ctx w w1 =
     (callbacks_invoked w1 = callbacks_invoked w @ [(Resolve, ctx)]
      \<or> callbacks_invoked w1 = callbacks_invoked w @ [(Reject, ctx)])"

text \<open>Two callbacks that leave a trace when they run, and the function that discovery
  builds for the descriptor of the scenario.\<close>

definition example_resolve :: callback_t where
  "example_resolve v ctx w =
     (Some v, w\<lparr>callbacks_invoked := callbacks_invoked w @ [(Resolve, ctx)]\<rparr>)"

definition example_reject :: callback_t where
  "example_reject v ctx w =
     (Some v, w\<lparr>callbacks_invoked := callbacks_invoked w @ [(Reject, ctx)]\<rparr>)"

definition example_function :: function_t where
  "example_function =
     discover_function example_platform example_impl \<lparr>path = ''/base/x/y.txt'', length_d = 13\<rparr>"


section \<open>Properties of loading\<close>

lemma load_path_eq:
  "file_loader_impl_load_path pf h p w =
     (if file_stat pf p then
        (0, h\<lparr>paths := paths h @ [descriptor_of pf p]\<rparr>,
         w\<lparr>stat_calls := stat_calls w @ [p],
           log_records := log_records w @ [(LOG_LEVEL_DEBUG, ''File %s loaded from file'', LogString p)]\<rparr>)
      else (1, h, w\<lparr>stat_calls := stat_calls w @ [p]\<rparr>))"
  by (simp add: file_loader_impl_load_path_def descriptor_of_def strncpy_def strnlen_def
      log_write_def Let_def min_def)

lemma loop_paths:
  "paths (fst (load_execution_path_loop pf eps h p w)) =
     paths h @ (case List.find (file_stat pf) (execution_candidates pf eps p) of
                  None \<Rightarrow> [] | Some q \<Rightarrow> [descriptor_of pf q])"
  by (induction eps arbitrary: h w) (simp_all add: load_path_eq execution_candidates_def Let_def)

lemma loop_stat_calls:
  "stat_calls (snd (load_execution_path_loop pf eps h p w)) =
     stat_calls w @ upto_first (file_stat pf) (execution_candidates pf eps p)"
  by (induction eps arbitrary: h w)
     (simp_all add: load_path_eq execution_candidates_def log_write_def Let_def)

lemma loop_log_records:
  "log_records (snd (load_execution_path_loop pf eps h p w)) =
     log_records w @ (case List.find (file_stat pf) (execution_candidates pf eps p) of
                        None \<Rightarrow> []
                      | Some q \<Rightarrow> [(LOG_LEVEL_DEBUG, ''File %s loaded from file'', LogString q),
                                   (LOG_LEVEL_ERROR, ''File %s not found'', LogString q)])"
  by (induction eps arbitrary: h w)
     (simp_all add: load_path_eq execution_candidates_def log_write_def Let_def)

lemma loop_allocations:
  "allocations (snd (load_execution_path_loop pf eps h p w)) = allocations w"
  by (induction eps arbitrary: h w) (simp_all add: load_path_eq log_write_def Let_def)

lemma load_execution_path_paths:
  "paths (fst (file_loader_impl_load_execution_path pf file_impl h p w)) =
     paths h @ (case resolve_spec pf (execution_paths file_impl) p of
                  None \<Rightarrow> [] | Some q \<Rightarrow> [descriptor_of pf q])"
  by (cases "execution_paths file_impl")
     (simp_all add: file_loader_impl_load_execution_path_def load_path_eq resolve_spec_def
        loop_paths execution_candidates_def del: load_execution_path_loop.simps)

lemma load_execution_path_stat_calls:
  "stat_calls (snd (file_loader_impl_load_execution_path pf file_impl h p w)) =
     stat_calls w @ attempts_spec pf (execution_paths file_impl) p"
  by (cases "execution_paths file_impl")
     (simp_all add: file_loader_impl_load_execution_path_def load_path_eq attempts_spec_def
        loop_stat_calls execution_candidates_def del: load_execution_path_loop.simps)

lemma load_execution_path_allocations:
  "allocations (snd (file_loader_impl_load_execution_path pf file_impl h p w)) = allocations w"
  by (simp add: file_loader_impl_load_execution_path_def load_path_eq loop_allocations)

text \<open>
  The log of one request, for every input: a debug record when the path resolves as given;
  a debug record followed by the error record \<open>File %s not found\<close> when it resolves
  against an execution path; nothing when it resolves nowhere.
\<close>

lemma load_execution_path_log_records:
  "log_records (snd (file_loader_impl_load_execution_path pf file_impl h p w)) =
     log_records w @
       (if file_stat pf p then [(LOG_LEVEL_DEBUG, ''File %s loaded from file'', LogString p)]
        else (case List.find (file_stat pf) (execution_candidates pf (execution_paths file_impl) p) of
                None \<Rightarrow> []
              | Some q \<Rightarrow> [(LOG_LEVEL_DEBUG, ''File %s loaded from file'', LogString q),
                           (LOG_LEVEL_ERROR, ''File %s not found'', LogString q)]))"
  by (cases "execution_paths file_impl")
     (simp_all add: file_loader_impl_load_execution_path_def load_path_eq
        loop_log_records execution_candidates_def del: load_execution_path_loop.simps)

lemma load_from_file_loop_paths:
  "paths (fst (load_from_file_loop pf file_impl h ps w)) =
     paths h @ map (descriptor_of pf) (List.map_filter (resolve_spec pf (execution_paths file_impl)) ps)"
proof (induction ps arbitrary: h w)
  case Nil
  show ?case by simp
next
  case (Cons p ps)
  obtain h1 w1 where step: "file_loader_impl_load_execution_path pf file_impl h p w = (h1, w1)"
    by (cases "file_loader_impl_load_execution_path pf file_impl h p w")
  have "paths h1 = paths h @ (case resolve_spec pf (execution_paths file_impl) p of
                  None \<Rightarrow> [] | Some q \<Rightarrow> [descriptor_of pf q])"
    using load_execution_path_paths [of pf file_impl h p w] step by simp
  then show ?case
    using Cons.IH [of h1 w1] step
    by (simp split: option.splits)
qed

lemma load_from_file_result:
  "fst (file_loader_impl_load_from_file pf impl ps w) =
     (case loader_impl_get impl of
        None \<Rightarrow> None
      | Some file_impl \<Rightarrow>
          if malloc_ok pf (allocations w) \<and> malloc_ok pf (Suc (allocations w))
             \<and> resolved_paths pf (execution_paths file_impl) ps \<noteq> []
          then Some \<lparr>paths = map (descriptor_of pf) (resolved_paths pf (execution_paths file_impl) ps)\<rparr>
          else None)"
proof (cases "loader_impl_get impl")
  case None
  then show ?thesis by (simp add: file_loader_impl_load_from_file_def)
next
  case (Some file_impl)
  let ?w2 = "w\<lparr>allocations := Suc (Suc (allocations w))\<rparr>"
  obtain h w3 where loop: "load_from_file_loop pf file_impl \<lparr>paths = []\<rparr> ps ?w2 = (h, w3)"
    by (cases "load_from_file_loop pf file_impl \<lparr>paths = []\<rparr> ps ?w2")
  have "paths h = map (descriptor_of pf) (resolved_paths pf (execution_paths file_impl) ps)"
    using load_from_file_loop_paths [of pf file_impl "\<lparr>paths = []\<rparr>" ps ?w2] loop
    by (simp add: resolved_paths_def)
  then have h: "h = \<lparr>paths = map (descriptor_of pf) (resolved_paths pf (execution_paths file_impl) ps)\<rparr>"
    by (cases h) simp
  show ?thesis
    using Some loop h
    by (simp add: file_loader_impl_load_from_file_def malloc_def vector_create_def)
qed

lemma load_from_package_result:
  "fst (file_loader_impl_load_from_package pf impl p w) =
     (case loader_impl_get impl of
        None \<Rightarrow> None
      | Some file_impl \<Rightarrow>
          if malloc_ok pf (allocations w) \<and> malloc_ok pf (Suc (allocations w))
          then (case resolve_spec pf (execution_paths file_impl) p of
                  None \<Rightarrow> None
                | Some q \<Rightarrow> Some \<lparr>paths = [descriptor_of pf q]\<rparr>)
          else None)"
proof (cases "loader_impl_get impl")
  case None
  then show ?thesis by (simp add: file_loader_impl_load_from_package_def)
next
  case (Some file_impl)
  let ?w2 = "w\<lparr>allocations := Suc (Suc (allocations w))\<rparr>"
  obtain h w3 where step: "file_loader_impl_load_execution_path pf file_impl \<lparr>paths = []\<rparr> p ?w2 = (h, w3)"
    by (cases "file_loader_impl_load_execution_path pf file_impl \<lparr>paths = []\<rparr> p ?w2")
  have "paths h = (case resolve_spec pf (execution_paths file_impl) p of
                  None \<Rightarrow> [] | Some q \<Rightarrow> [descriptor_of pf q])"
    using load_execution_path_paths [of pf file_impl "\<lparr>paths = []\<rparr>" p ?w2] step by simp
  then have h: "h = \<lparr>paths = (case resolve_spec pf (execution_paths file_impl) p of
                  None \<Rightarrow> [] | Some q \<Rightarrow> [descriptor_of pf q])\<rparr>"
    by (cases h) simp
  show ?thesis
    using Some step h
    by (simp add: file_loader_impl_load_from_package_def malloc_def vector_create_def
        split: option.splits)
qed

lemma resolved_paths_Nil_iff:
  "resolved_paths pf eps ps = [] \<longleftrightarrow> (\<forall>p\<in>set ps. resolve_spec pf eps p = None)"
  by (induction ps) (auto simp: resolved_paths_def split: option.splits)

lemmas example_defs =
  example_platform_def example_impl_def example_world_def loader_impl_get_def
  execution_paths_of_def

lemmas load_defs =
  file_loader_impl_load_from_file_def file_loader_impl_load_from_package_def
  file_loader_impl_load_execution_path_def file_loader_impl_load_path_def
  malloc_def vector_create_def log_write_def strncpy_def strnlen_def Let_def

text \<open>
  C1. Neither \<^verbatim>\<open>load_from_file\<close> nor \<^verbatim>\<open>load_from_package\<close> ever returns a handle
  without descriptors, whatever the path list, the backend state and the outcome of the
  allocations; and when no requested path resolves, as given or against an execution path,
  the load returns no handle (the null pointer, the only failure the C interface has).
\<close>

theorem load_never_returns_empty_handle:
  "(\<forall>h. fst (file_loader_impl_load_from_file pf impl ps w) = Some h \<longrightarrow> paths h \<noteq> [])
   \<and> ((\<forall>p\<in>set ps. resolve_spec pf (execution_paths_of impl) p = None)
        \<longrightarrow> fst (file_loader_impl_load_from_file pf impl ps w) = None)
   \<and> (\<forall>h. fst (file_loader_impl_load_from_package pf impl p w) = Some h \<longrightarrow> paths h \<noteq> [])
   \<and> (resolve_spec pf (execution_paths_of impl) p = None
        \<longrightarrow> fst (file_loader_impl_load_from_package pf impl p w) = None)"
proof (intro conjI allI impI)
  fix h assume "fst (file_loader_impl_load_from_file pf impl ps w) = Some h"
  then show "paths h \<noteq> []"
    by (auto simp: load_from_file_result split: option.splits if_splits)
next
  assume "\<forall>p\<in>set ps. resolve_spec pf (execution_paths_of impl) p = None"
  then show "fst (file_loader_impl_load_from_file pf impl ps w) = None"
    by (auto simp: load_from_file_result execution_paths_of_def resolved_paths_Nil_iff
        split: option.splits)
next
  fix h assume "fst (file_loader_impl_load_from_package pf impl p w) = Some h"
  then show "paths h \<noteq> []"
    by (auto simp: load_from_package_result split: option.splits if_splits)
next
  assume "resolve_spec pf (execution_paths_of impl) p = None"
  then show "fst (file_loader_impl_load_from_package pf impl p w) = None"
    by (auto simp: load_from_package_result execution_paths_of_def split: option.splits)
qed

theorem load_never_returns_empty_handle_witness:
  "resolve_spec example_platform (execution_paths_of example_impl) ''nope'' = None
   \<and> resolve_spec example_platform (execution_paths_of example_impl) ''none'' = None
   \<and> fst (file_loader_impl_load_from_file example_platform example_impl [''nope'', ''none'']
        example_world) = None
   \<and> fst (file_loader_impl_load_from_package example_platform example_impl ''nope''
        example_world) = None
   \<and> fst (file_loader_impl_load_from_file example_platform example_impl [''nope'', ''a.txt'']
        example_world) = Some \<lparr>paths = [\<lparr>path = ''a.txt'', length_d = 5\<rparr>]\<rparr>
   \<and> paths \<lparr>paths = [\<lparr>path = ''a.txt'', length_d = 5\<rparr>]\<rparr> \<noteq> []
   \<and> fst (file_loader_impl_load_from_package example_platform example_impl ''x/y.txt''
        example_world) = Some \<lparr>paths = [\<lparr>path = ''/base/x/y.txt'', length_d = 13\<rparr>]\<rparr>
   \<and> paths \<lparr>paths = [\<lparr>path = ''/base/x/y.txt'', length_d = 13\<rparr>]\<rparr> \<noteq> []"
proof -
  have none: "\<forall>p\<in>set [''nope'', ''none''].
      resolve_spec example_platform (execution_paths_of example_impl) p = None"
    by (simp add: example_defs resolve_spec_def execution_candidates_def)
  have some_file: "fst (file_loader_impl_load_from_file example_platform example_impl
      [''nope'', ''a.txt''] example_world) = Some \<lparr>paths = [\<lparr>path = ''a.txt'', length_d = 5\<rparr>]\<rparr>"
    by (simp add: example_defs load_defs)
  have some_package: "fst (file_loader_impl_load_from_package example_platform example_impl
      ''x/y.txt'' example_world) = Some \<lparr>paths = [\<lparr>path = ''/base/x/y.txt'', length_d = 13\<rparr>]\<rparr>"
    by (simp add: example_defs load_defs)
  show ?thesis
    using none some_file some_package
      load_never_returns_empty_handle [of example_platform example_impl "[''nope'', ''none'']"
        example_world "''nope''"]
      load_never_returns_empty_handle [of example_platform example_impl "[''nope'', ''a.txt'']"
        example_world "''x/y.txt''"]
    by simp
qed

lemma load_from_file_loop_stat_calls:
  "stat_calls (snd (load_from_file_loop pf file_impl h ps w)) =
     stat_calls w @ concat (map (attempts_spec pf (execution_paths file_impl)) ps)"
proof (induction ps arbitrary: h w)
  case Nil
  show ?case by simp
next
  case (Cons p ps)
  obtain h1 w1 where step: "file_loader_impl_load_execution_path pf file_impl h p w = (h1, w1)"
    by (cases "file_loader_impl_load_execution_path pf file_impl h p w")
  have "stat_calls w1 = stat_calls w @ attempts_spec pf (execution_paths file_impl) p"
    using load_execution_path_stat_calls [of pf file_impl h p w] step by simp
  then show ?case
    using Cons.IH [of h1 w1] step by simp
qed

lemma load_from_file_stat_calls:
  "stat_calls (snd (file_loader_impl_load_from_file pf impl ps w)) =
     stat_calls w @
       (case loader_impl_get impl of
          None \<Rightarrow> []
        | Some file_impl \<Rightarrow>
            if malloc_ok pf (allocations w) \<and> malloc_ok pf (Suc (allocations w))
            then concat (map (attempts_spec pf (execution_paths file_impl)) ps)
            else [])"
proof (cases "loader_impl_get impl")
  case None
  then show ?thesis by (simp add: file_loader_impl_load_from_file_def)
next
  case (Some file_impl)
  let ?w2 = "w\<lparr>allocations := Suc (Suc (allocations w))\<rparr>"
  obtain h w3 where loop: "load_from_file_loop pf file_impl \<lparr>paths = []\<rparr> ps ?w2 = (h, w3)"
    by (cases "load_from_file_loop pf file_impl \<lparr>paths = []\<rparr> ps ?w2")
  have "stat_calls w3 = stat_calls w @ concat (map (attempts_spec pf (execution_paths file_impl)) ps)"
    using load_from_file_loop_stat_calls [of pf file_impl "\<lparr>paths = []\<rparr>" ps ?w2] loop by simp
  then show ?thesis
    using Some loop
    by (simp add: file_loader_impl_load_from_file_def malloc_def vector_create_def)
qed

lemma load_from_package_stat_calls:
  "stat_calls (snd (file_loader_impl_load_from_package pf impl p w)) =
     stat_calls w @
       (case loader_impl_get impl of
          None \<Rightarrow> []
        | Some file_impl \<Rightarrow>
            if malloc_ok pf (allocations w) \<and> malloc_ok pf (Suc (allocations w))
            then attempts_spec pf (execution_paths file_impl) p
            else [])"
proof (cases "loader_impl_get impl")
  case None
  then show ?thesis by (simp add: file_loader_impl_load_from_package_def)
next
  case (Some file_impl)
  let ?w2 = "w\<lparr>allocations := Suc (Suc (allocations w))\<rparr>"
  obtain h w3 where step: "file_loader_impl_load_execution_path pf file_impl \<lparr>paths = []\<rparr> p ?w2 = (h, w3)"
    by (cases "file_loader_impl_load_execution_path pf file_impl \<lparr>paths = []\<rparr> p ?w2")
  have "stat_calls w3 = stat_calls w @ attempts_spec pf (execution_paths file_impl) p"
    using load_execution_path_stat_calls [of pf file_impl "\<lparr>paths = []\<rparr>" p ?w2] step by simp
  then show ?thesis
    using Some step
    by (simp add: file_loader_impl_load_from_package_def malloc_def vector_create_def)
qed

text \<open>
  C2. For every requested path the loader first calls \<^verbatim>\<open>stat\<close> on the path as given;
  only when that fails does it try the path joined against the execution paths, in their
  insertion order, and it makes no attempt after the first that resolves. The attempts are
  read off the recorded \<^verbatim>\<open>stat\<close> calls; the handle gains the descriptor of the first
  path that resolved and nothing otherwise; and \<^verbatim>\<open>execution_path\<close> inserts at the back.
  A load applies this to each requested path in request order: the \<^verbatim>\<open>stat\<close> calls of
  \<^verbatim>\<open>load_from_file\<close> are the attempts for the first path, then those for the second,
  and so on, those of \<^verbatim>\<open>load_from_package\<close> the attempts for its one path, and a load
  that stops before the paths (no backend data, or a failed allocation) makes none.
\<close>

theorem load_execution_path_order:
  "stat_calls (snd (file_loader_impl_load_execution_path pf file_impl h p w)) =
     stat_calls w @ attempts_spec pf (execution_paths file_impl) p
   \<and> paths (fst (file_loader_impl_load_execution_path pf file_impl h p w)) =
     paths h @ (case resolve_spec pf (execution_paths file_impl) p of
                  None \<Rightarrow> [] | Some q \<Rightarrow> [descriptor_of pf q])
   \<and> map_option (\<lambda>r. execution_paths_of (snd r)) (file_loader_impl_execution_path n impl e) =
     map_option (\<lambda>file_impl. execution_paths file_impl @ [take n e]) (loader_impl_get impl)
   \<and> stat_calls (snd (file_loader_impl_load_from_file pf impl ps w)) =
     stat_calls w @
       (case loader_impl_get impl of
          None \<Rightarrow> []
        | Some file_impl \<Rightarrow>
            if malloc_ok pf (allocations w) \<and> malloc_ok pf (Suc (allocations w))
            then concat (map (attempts_spec pf (execution_paths file_impl)) ps)
            else [])
   \<and> stat_calls (snd (file_loader_impl_load_from_package pf impl p w)) =
     stat_calls w @
       (case loader_impl_get impl of
          None \<Rightarrow> []
        | Some file_impl \<Rightarrow>
            if malloc_ok pf (allocations w) \<and> malloc_ok pf (Suc (allocations w))
            then attempts_spec pf (execution_paths file_impl) p
            else [])
   \<and> fst (file_loader_impl_load_from_file pf impl ps w) =
       (case loader_impl_get impl of
          None \<Rightarrow> None
        | Some file_impl \<Rightarrow>
            if malloc_ok pf (allocations w) \<and> malloc_ok pf (Suc (allocations w))
               \<and> resolved_paths pf (execution_paths file_impl) ps \<noteq> []
            then Some \<lparr>paths = map (descriptor_of pf)
                   (resolved_paths pf (execution_paths file_impl) ps)\<rparr>
            else None)
   \<and> fst (file_loader_impl_load_from_package pf impl p w) =
       (case loader_impl_get impl of
          None \<Rightarrow> None
        | Some file_impl \<Rightarrow>
            if malloc_ok pf (allocations w) \<and> malloc_ok pf (Suc (allocations w))
            then (case resolve_spec pf (execution_paths file_impl) p of
                    None \<Rightarrow> None
                  | Some q \<Rightarrow> Some \<lparr>paths = [descriptor_of pf q]\<rparr>)
            else None)"
proof (intro conjI)
  show "stat_calls (snd (file_loader_impl_load_execution_path pf file_impl h p w)) =
     stat_calls w @ attempts_spec pf (execution_paths file_impl) p"
    by (rule load_execution_path_stat_calls)
  show "paths (fst (file_loader_impl_load_execution_path pf file_impl h p w)) =
     paths h @ (case resolve_spec pf (execution_paths file_impl) p of
                  None \<Rightarrow> [] | Some q \<Rightarrow> [descriptor_of pf q])"
    by (rule load_execution_path_paths)
  show "map_option (\<lambda>r. execution_paths_of (snd r)) (file_loader_impl_execution_path n impl e) =
     map_option (\<lambda>file_impl. execution_paths file_impl @ [take n e]) (loader_impl_get impl)"
    by (simp add: file_loader_impl_execution_path_def execution_paths_of_def loader_impl_get_def
        strncpy_def split: option.splits)
qed (rule load_from_file_stat_calls load_from_package_stat_calls load_from_file_result
       load_from_package_result)+

theorem load_execution_path_order_witness:
  "stat_calls (snd (file_loader_impl_load_execution_path example_platform
      \<lparr>execution_paths = [''/lib'', ''/base'', ''/base/x'']\<rparr> \<lparr>paths = []\<rparr> ''x/y.txt'' example_world)) =
     [''x/y.txt'', ''/lib/x/y.txt'', ''/base/x/y.txt'']
   \<and> paths (fst (file_loader_impl_load_execution_path example_platform
      \<lparr>execution_paths = [''/lib'', ''/base'', ''/base/x'']\<rparr> \<lparr>paths = []\<rparr> ''x/y.txt'' example_world)) =
     [\<lparr>path = ''/base/x/y.txt'', length_d = 13\<rparr>]
   \<and> stat_calls (snd (file_loader_impl_load_execution_path example_platform
      \<lparr>execution_paths = [''/lib'', ''/base'']\<rparr> \<lparr>paths = []\<rparr> ''a.txt'' example_world)) =
     [''a.txt'']
   \<and> map_option (\<lambda>r. execution_paths_of (snd r))
        (file_loader_impl_execution_path 511 example_impl ''/opt'') =
     Some [''/lib'', ''/base'', ''/opt'']
   \<and> stat_calls (snd (file_loader_impl_load_from_file example_platform example_impl
        [''nope'', ''x/y.txt'', ''a.txt''] example_world)) =
     [''nope'', ''/lib/nope'', ''/base/nope'', ''x/y.txt'', ''/lib/x/y.txt'', ''/base/x/y.txt'',
      ''a.txt'']
   \<and> fst (file_loader_impl_load_from_file example_platform example_impl
        [''nope'', ''x/y.txt'', ''a.txt''] example_world) =
     Some \<lparr>paths = [\<lparr>path = ''/base/x/y.txt'', length_d = 13\<rparr>, \<lparr>path = ''a.txt'', length_d = 5\<rparr>]\<rparr>
   \<and> stat_calls (snd (file_loader_impl_load_from_package example_platform example_impl
        ''x/y.txt'' example_world)) =
     [''x/y.txt'', ''/lib/x/y.txt'', ''/base/x/y.txt'']
   \<and> fst (file_loader_impl_load_from_package example_platform example_impl
        ''x/y.txt'' example_world) =
     Some \<lparr>paths = [\<lparr>path = ''/base/x/y.txt'', length_d = 13\<rparr>]\<rparr>"
  using load_execution_path_order [where pf = example_platform
      and file_impl = "\<lparr>execution_paths = [''/lib'', ''/base'', ''/base/x'']\<rparr>"
      and h = "\<lparr>paths = []\<rparr>" and p = "''x/y.txt''" and w = example_world and n = 511
      and impl = example_impl and e = "''/opt''" and ps = "[''nope'', ''x/y.txt'', ''a.txt'']"]
    load_execution_path_order [where pf = example_platform
      and file_impl = "\<lparr>execution_paths = [''/lib'', ''/base'']\<rparr>"
      and h = "\<lparr>paths = []\<rparr>" and p = "''a.txt''" and w = example_world and n = 511
      and impl = example_impl and e = "''/opt''" and ps = "[]"]
  by (simp add: example_defs attempts_spec_def resolve_spec_def execution_candidates_def
      descriptor_of_def resolved_paths_def)

text \<open>
  C3. When the backend has its data and the two allocations of the handle succeed, a path
  list with at least one resolvable path loads: the handle's descriptors are those of the
  resolved paths, in request order, one for each resolvable request and none for an
  unresolvable one, and each descriptor holds its resolved path whole unless the path is
  longer than \<^verbatim>\<open>LOADER_IMPL_FILE_SIZE\<close>. The hypothesis asks for a resolvable path only,
  so lists that also hold unresolvable paths are covered.
\<close>

theorem load_from_file_mixed:
  assumes "loader_impl_get impl = Some file_impl"
    and "malloc_ok pf (allocations w)" and "malloc_ok pf (Suc (allocations w))"
    and "p \<in> set ps" and "resolve_spec pf (execution_paths file_impl) p \<noteq> None"
  shows "fst (file_loader_impl_load_from_file pf impl ps w) =
           Some \<lparr>paths = map (descriptor_of pf) (resolved_paths pf (execution_paths file_impl) ps)\<rparr>
         \<and> length (resolved_paths pf (execution_paths file_impl) ps) =
             length (filter (\<lambda>p. resolve_spec pf (execution_paths file_impl) p \<noteq> None) ps)
         \<and> ((\<forall>q\<in>set (resolved_paths pf (execution_paths file_impl) ps).
                length q \<le> LOADER_IMPL_FILE_SIZE pf)
             \<longrightarrow> map path (map (descriptor_of pf) (resolved_paths pf (execution_paths file_impl) ps))
                   = resolved_paths pf (execution_paths file_impl) ps)"
proof (intro conjI impI)
  have "resolved_paths pf (execution_paths file_impl) ps \<noteq> []"
    using assms(4,5) by (auto simp: resolved_paths_Nil_iff)
  then show "fst (file_loader_impl_load_from_file pf impl ps w) =
           Some \<lparr>paths = map (descriptor_of pf) (resolved_paths pf (execution_paths file_impl) ps)\<rparr>"
    using assms(1-3) by (simp add: load_from_file_result)
next
  show "length (resolved_paths pf (execution_paths file_impl) ps) =
             length (filter (\<lambda>p. resolve_spec pf (execution_paths file_impl) p \<noteq> None) ps)"
    by (induction ps) (auto simp: resolved_paths_def split: option.splits)
next
  assume "\<forall>q\<in>set (resolved_paths pf (execution_paths file_impl) ps).
                length q \<le> LOADER_IMPL_FILE_SIZE pf"
  then show "map path (map (descriptor_of pf) (resolved_paths pf (execution_paths file_impl) ps))
                   = resolved_paths pf (execution_paths file_impl) ps"
    by (induction "resolved_paths pf (execution_paths file_impl) ps")
       (simp_all add: descriptor_of_def map_idI)
qed

theorem load_from_file_mixed_witness:
  "fst (file_loader_impl_load_from_file example_platform example_impl
      [''nope'', ''x/y.txt'', ''none'', ''a.txt''] example_world) =
     Some \<lparr>paths = [\<lparr>path = ''/base/x/y.txt'', length_d = 13\<rparr>, \<lparr>path = ''a.txt'', length_d = 5\<rparr>]\<rparr>
   \<and> resolve_spec example_platform [''/lib'', ''/base''] ''nope'' = None
   \<and> resolved_paths example_platform [''/lib'', ''/base'']
        [''nope'', ''x/y.txt'', ''none'', ''a.txt''] = [''/base/x/y.txt'', ''a.txt'']
   \<and> map path (map (descriptor_of example_platform) [''/base/x/y.txt'', ''a.txt'']) =
        [''/base/x/y.txt'', ''a.txt'']"
proof -
  have r: "resolved_paths example_platform [''/lib'', ''/base'']
        [''nope'', ''x/y.txt'', ''none'', ''a.txt''] = [''/base/x/y.txt'', ''a.txt'']"
    by (simp add: resolved_paths_def resolve_spec_def execution_candidates_def example_defs)
  have g: "loader_impl_get example_impl = Some \<lparr>execution_paths = [''/lib'', ''/base'']\<rparr>"
    by (simp add: example_defs)
  have a: "malloc_ok example_platform (allocations example_world)"
    "malloc_ok example_platform (Suc (allocations example_world))"
    by (simp_all add: example_defs)
  have m: "''x/y.txt'' \<in> set [''nope'', ''x/y.txt'', ''none'', ''a.txt'']" by simp
  have s: "resolve_spec example_platform (execution_paths \<lparr>execution_paths = [''/lib'', ''/base'']\<rparr>)
      ''x/y.txt'' \<noteq> None"
    by (simp add: resolve_spec_def execution_candidates_def example_defs)
  have n: "resolve_spec example_platform [''/lib'', ''/base''] ''nope'' = None"
    by (simp add: resolve_spec_def execution_candidates_def example_defs)
  show ?thesis
    using load_from_file_mixed [OF g a m s] r n
    by (simp add: descriptor_of_def example_platform_def)
qed

text \<open>
  C4. What the code writes to the log in the scenario. The request \<open>x/y.txt\<close> resolves
  against the execution path \<open>/base\<close>: the code writes the debug record of the load and
  then an error record saying the file was not found, although its descriptor is in the
  handle. The request \<open>nope\<close> resolves nowhere: the code writes no record at all, so
  no warning either.
\<close>

theorem execution_path_hit_logged_as_error:
  "log_records (snd (file_loader_impl_load_execution_path example_platform
      \<lparr>execution_paths = [''/lib'', ''/base'']\<rparr> \<lparr>paths = []\<rparr> ''x/y.txt'' example_world)) =
     [(LOG_LEVEL_DEBUG, ''File %s loaded from file'', LogString ''/base/x/y.txt''),
      (LOG_LEVEL_ERROR, ''File %s not found'', LogString ''/base/x/y.txt'')]
   \<and> paths (fst (file_loader_impl_load_execution_path example_platform
      \<lparr>execution_paths = [''/lib'', ''/base'']\<rparr> \<lparr>paths = []\<rparr> ''x/y.txt'' example_world)) =
     [\<lparr>path = ''/base/x/y.txt'', length_d = 13\<rparr>]
   \<and> log_records (snd (file_loader_impl_load_execution_path example_platform
      \<lparr>execution_paths = [''/lib'', ''/base'']\<rparr> \<lparr>paths = []\<rparr> ''nope'' example_world)) = []
   \<and> paths (fst (file_loader_impl_load_execution_path example_platform
      \<lparr>execution_paths = [''/lib'', ''/base'']\<rparr> \<lparr>paths = []\<rparr> ''nope'' example_world)) = []"
  by (simp add: example_defs load_defs)

section \<open>Properties of discovery\<close>

lemma discover_function_simps:
  "function_name (discover_function pf impl d) = discovered_name pf d"
  "function_impl (discover_function pf impl d) = \<lparr>descriptor = d\<rparr>"
  "function_singleton (discover_function pf impl d) = Function_file_singleton"
  "signature_count (function_signature (discover_function pf impl d)) = 0"
  "signature_return (function_signature (discover_function pf impl d)) = loader_impl_type impl ''Path''"
  by (simp_all add: discover_function_def discovered_name_def function_create_def
      signature_set_return_def Let_def split: option.splits)

lemma discover_loop_keeps:
  "sp n = Some v \<Longrightarrow> fst (discover_loop pf impl ds sp w) n = Some v"
proof (induction ds arbitrary: sp w)
  case Nil
  then show ?case by simp
next
  case (Cons d ds)
  let ?f = "discover_function pf impl d"
  let ?w1 = "w\<lparr>allocations := Suc (allocations w)\<rparr>"
  obtain r sp1 where def: "scope_define sp (function_name ?f) (Value_function ?f) = (r, sp1)"
    by (cases "scope_define sp (function_name ?f) (Value_function ?f)")
  have "sp1 n = Some v"
    using def Cons.prems by (auto simp: scope_define_def split: option.splits)
  then have "fst (discover_loop pf impl ds sp1 ?w1) n = Some v"
    by (rule Cons.IH)
  moreover have "fst (discover_loop pf impl ds sp ?w1) n = Some v"
    using Cons.prems by (rule Cons.IH)
  ultimately show ?case
    using def by (simp add: malloc_def Let_def)
qed

lemma discover_loop_new:
  "fst (discover_loop pf impl ds sp w) n = Some v \<Longrightarrow> sp n = None \<Longrightarrow>
     \<exists>d\<in>set ds. v = Value_function (discover_function pf impl d) \<and> n = discovered_name pf d"
proof (induction ds arbitrary: sp w)
  case Nil
  then show ?case by simp
next
  case (Cons d ds)
  let ?f = "discover_function pf impl d"
  let ?w1 = "w\<lparr>allocations := Suc (allocations w)\<rparr>"
  show ?case
  proof (cases "malloc_ok pf (allocations w)")
    case False
    then have "fst (discover_loop pf impl ds sp ?w1) n = Some v"
      using Cons.prems(1) by (simp add: malloc_def)
    then show ?thesis using Cons.IH [of sp ?w1] Cons.prems(2) by auto
  next
    case True
    show ?thesis
    proof (cases "sp (function_name ?f)")
      case (Some u)
      then have "fst (discover_loop pf impl ds sp ?w1) n = Some v"
        using Cons.prems(1) True by (simp add: malloc_def scope_define_def Let_def)
      then show ?thesis using Cons.IH [of sp ?w1] Cons.prems(2) by auto
    next
      case None
      let ?sp1 = "sp(function_name ?f \<mapsto> Value_function ?f)"
      have run: "fst (discover_loop pf impl ds ?sp1 ?w1) n = Some v"
        using Cons.prems(1) True None by (simp add: malloc_def scope_define_def Let_def)
      show ?thesis
      proof (cases "n = function_name ?f")
        case True
        then have "?sp1 n = Some (Value_function ?f)" by simp
        then have "fst (discover_loop pf impl ds ?sp1 ?w1) n = Some (Value_function ?f)"
          by (rule discover_loop_keeps)
        with run have "v = Value_function ?f" by simp
        with True show ?thesis by (auto simp: discover_function_simps)
      next
        case False
        then have fresh: "?sp1 n = None" using Cons.prems(2) by simp
        have "\<exists>d\<in>set ds. v = Value_function (discover_function pf impl d) \<and> n = discovered_name pf d"
          using run fresh by (rule Cons.IH)
        then show ?thesis by auto
      qed
    qed
  qed
qed

lemma discover_loop_defines:
  "d \<in> set ds \<Longrightarrow> \<forall>k<length ds. malloc_ok pf (allocations w + k) \<Longrightarrow>
     fst (discover_loop pf impl ds sp w) (discovered_name pf d) \<noteq> None"
proof (induction ds arbitrary: sp w)
  case Nil
  then show ?case by simp
next
  case (Cons e ds)
  let ?f = "discover_function pf impl e"
  let ?w1 = "w\<lparr>allocations := Suc (allocations w)\<rparr>"
  have ok: "malloc_ok pf (allocations w)" using Cons.prems(2) by force
  have rest: "\<forall>k<length ds. malloc_ok pf (allocations ?w1 + k)"
  proof (intro allI impI)
    fix k assume "k < length ds"
    then have "Suc k < length (e # ds)" by simp
    then have "malloc_ok pf (allocations w + Suc k)" using Cons.prems(2) by blast
    then show "malloc_ok pf (allocations ?w1 + k)" by simp
  qed
  obtain r sp1 where def: "scope_define sp (function_name ?f) (Value_function ?f) = (r, sp1)"
    by (cases "scope_define sp (function_name ?f) (Value_function ?f)")
  have step: "discover_loop pf impl (e # ds) sp w = discover_loop pf impl ds sp1 ?w1"
    using ok def by (simp add: malloc_def Let_def)
  have bound: "sp1 (discovered_name pf e) \<noteq> None"
    using def by (auto simp: scope_define_def discover_function_simps split: option.splits)
  show ?case
  proof (cases "d = e")
    case True
    obtain u where "sp1 (discovered_name pf e) = Some u" using bound by auto
    then have "fst (discover_loop pf impl ds sp1 ?w1) (discovered_name pf e) = Some u"
      by (rule discover_loop_keeps)
    then show ?thesis using True step by simp
  next
    case False
    then have "d \<in> set ds" using Cons.prems(1) by simp
    then show ?thesis using Cons.IH [OF _ rest, of sp1] step by simp
  qed
qed

lemma discover_scope:
  "file_loader_impl_discover pf impl handle ctx w = (r, ctx1, w1) \<Longrightarrow>
     r = 0 \<and> context_scope ctx1 =
       fst (discover_loop pf impl (paths handle) (context_scope ctx)
         (log_write LOG_LEVEL_DEBUG ''File module %p discovering'' (LogPointer (Some handle)) w))"
  by (auto simp: file_loader_impl_discover_def Let_def split: prod.splits)

lemmas discover_defs =
  file_loader_impl_discover_def discover_function_def function_create_def
  signature_set_return_def loader_impl_type_def scope_define_def malloc_def log_write_def
  Let_def

text \<open>
  C5. After discovery, every name newly bound in the context's scope is bound to a function
  built from a descriptor of the handle, and the name is the descriptor's path made
  relative to the base path in \<^verbatim>\<open>LOADER_SCRIPT_PATH\<close> (by \<^verbatim>\<open>loader_path_get_relative\<close>)
  when the variable is set, and the stored descriptor path when it is unset. Conversely,
  when the allocations succeed, the name of every descriptor of the handle is bound.
\<close>

theorem discovered_function_name:
  assumes "file_loader_impl_discover pf impl handle ctx w = (r, ctx1, w1)"
  shows "(\<forall>n v. context_scope ctx n = None \<longrightarrow> context_scope ctx1 n = Some v \<longrightarrow>
            (\<exists>d\<in>set (paths handle). \<exists>f. v = Value_function f \<and> function_name f = n
               \<and> function_impl f = \<lparr>descriptor = d\<rparr> \<and> n = discovered_name pf d))
         \<and> (\<forall>d\<in>set (paths handle).
              (\<forall>k<length (paths handle). malloc_ok pf (allocations w + k)) \<longrightarrow>
                context_scope ctx1 (discovered_name pf d) \<noteq> None)
         \<and> (\<forall>d. getenv pf ''LOADER_SCRIPT_PATH'' = None \<longrightarrow> discovered_name pf d = path d)
         \<and> (\<forall>d base. getenv pf ''LOADER_SCRIPT_PATH'' = Some base \<longrightarrow>
              discovered_name pf d = loader_path_get_relative pf base (path d))"
proof (intro conjI allI impI ballI)
  fix n v
  assume "context_scope ctx n = None" "context_scope ctx1 n = Some v"
  then have "\<exists>d\<in>set (paths handle). v = Value_function (discover_function pf impl d) \<and> n = discovered_name pf d"
    using discover_scope [OF assms] discover_loop_new by metis
  then show "\<exists>d\<in>set (paths handle). \<exists>f. v = Value_function f \<and> function_name f = n
               \<and> function_impl f = \<lparr>descriptor = d\<rparr> \<and> n = discovered_name pf d"
    by (auto simp: discover_function_simps)
next
  fix d
  assume "d \<in> set (paths handle)" "\<forall>k<length (paths handle). malloc_ok pf (allocations w + k)"
  then show "context_scope ctx1 (discovered_name pf d) \<noteq> None"
    using discover_scope [OF assms] discover_loop_defines [of d "paths handle" pf]
    by (simp add: log_write_def)
qed (simp_all add: discovered_name_def)

theorem discovered_function_name_witness:
  "context_scope (fst (snd (file_loader_impl_discover example_script_platform example_impl
      example_handle example_context example_world))) ''y.txt'' =
     Some (Value_function
       \<lparr>function_name = ''y.txt'',
        function_signature = \<lparr>signature_count = 0, signature_return = None\<rparr>,
        function_impl = \<lparr>descriptor = \<lparr>path = ''/base/x/y.txt'', length_d = 13\<rparr>\<rparr>,
        function_singleton = Function_file_singleton\<rparr>)
   \<and> discovered_name example_script_platform \<lparr>path = ''/base/x/y.txt'', length_d = 13\<rparr> = ''y.txt''
   \<and> context_scope (fst (snd (file_loader_impl_discover example_platform example_impl
      example_handle example_context example_world))) ''/base/x/y.txt'' =
     Some (Value_function
       \<lparr>function_name = ''/base/x/y.txt'',
        function_signature = \<lparr>signature_count = 0, signature_return = None\<rparr>,
        function_impl = \<lparr>descriptor = \<lparr>path = ''/base/x/y.txt'', length_d = 13\<rparr>\<rparr>,
        function_singleton = Function_file_singleton\<rparr>)
   \<and> discovered_name example_platform \<lparr>path = ''/base/x/y.txt'', length_d = 13\<rparr> = ''/base/x/y.txt''"
proof -
  let ?X = "file_loader_impl_discover example_script_platform example_impl
      example_handle example_context example_world"
  let ?Y = "file_loader_impl_discover example_platform example_impl
      example_handle example_context example_world"
  have x: "?X = (fst ?X, fst (snd ?X), snd (snd ?X))" by simp
  have y: "?Y = (fst ?Y, fst (snd ?Y), snd (snd ?Y))" by simp
  show ?thesis
    using discovered_function_name [OF x] discovered_function_name [OF y]
    by (simp add: discover_defs example_defs example_script_platform_def example_handle_def
        example_context_def discovered_name_def)
qed

section \<open>Properties of the function interface\<close>

text \<open>
  C6. \<^verbatim>\<open>load_from_memory\<close> of the file backend returns no handle for every name,
  buffer and size, and leaves the world as it found it; the loader instance is not touched.
\<close>

theorem load_from_memory_not_supported:
  "file_loader_impl_load_from_memory pf impl name buffer size_b w = (None, w)"
  by (simp add: file_loader_impl_load_from_memory_def)

text \<open>
  C7, as amended. Calling await through the dispatch table of any function of the file
  backend returns no value and leaves the world unchanged: neither callback runs, and the
  context pointer is not used.
\<close>

theorem await_returns_null_without_callback:
  "interface_await (function_interface_of (function_singleton f)) pf f (function_impl f)
      args size_a resolve_callback reject_callback ctx w = (None, w)
   \<and> callbacks_invoked (snd (interface_await (function_interface_of (function_singleton f)) pf f
      (function_impl f) args size_a resolve_callback reject_callback ctx w)) = callbacks_invoked w"
  by (cases "function_singleton f")
     (simp add: function_file_singleton_def function_file_interface_await_def)

text \<open>
  C7, as stated, fails: awaiting the function of the scenario with two callbacks that
  leave a trace and the context pointer 7 runs neither of them.
\<close>

theorem await_exactly_one_callback_counterexample:
  "\<not> exactly_one_callback 7 example_world
       (snd (interface_await (function_interface_of (function_singleton example_function))
          example_platform example_function (function_impl example_function) [] 0
          example_resolve example_reject 7 example_world))"
  by (simp add: exactly_one_callback_def example_function_def discover_function_simps
      function_file_singleton_def function_file_interface_await_def example_world_def)

lemma loaded_descriptor_length:
  assumes "fst (file_loader_impl_load_from_file pf impl0 ps w0) = Some handle
           \<or> fst (file_loader_impl_load_from_package pf impl0 p w0) = Some handle"
    and "d \<in> set (paths handle)"
  shows "take (length_d d) (path d) = path d"
proof -
  have "\<exists>q. d = descriptor_of pf q"
    using assms
    by (auto simp: load_from_file_result load_from_package_result
        split: option.splits if_splits)
  then show ?thesis by (auto simp: descriptor_of_def)
qed

text \<open>
  C9. A function that discovery publishes for a handle produced by a load has arity 0, and
  invoking it through its dispatch table, with any arguments, creates a string value
  holding the path of its descriptor, a descriptor of the handle; the arguments are not
  read. The value is null only when the allocation of the string fails.
\<close>

theorem discovered_function_invoke:
  assumes "fst (file_loader_impl_load_from_file pf impl0 ps w0) = Some handle
           \<or> fst (file_loader_impl_load_from_package pf impl0 p w0) = Some handle"
    and "file_loader_impl_discover pf impl handle ctx w = (r, ctx1, w1)"
    and "context_scope ctx n = None" and "context_scope ctx1 n = Some v"
  shows "\<exists>f. v = Value_function f
           \<and> signature_count (function_signature f) = 0
           \<and> descriptor (function_impl f) \<in> set (paths handle)
           \<and> (\<forall>args size_a w2.
                 interface_invoke (function_interface_of (function_singleton f)) pf f
                   (function_impl f) args size_a w2 =
                 (if malloc_ok pf (allocations w2)
                  then Some (Value_string (path (descriptor (function_impl f)))) else None,
                  w2\<lparr>allocations := Suc (allocations w2)\<rparr>))"
proof -
  obtain d where d: "d \<in> set (paths handle)" "v = Value_function (discover_function pf impl d)"
    using discover_scope [OF assms(2)] discover_loop_new assms(3,4) by metis
  have cut: "take (length_d d) (path d) = path d"
    using assms(1) d(1) by (rule loaded_descriptor_length)
  show ?thesis
  proof (intro exI conjI allI)
    show "v = Value_function (discover_function pf impl d)" by (rule d(2))
    show "signature_count (function_signature (discover_function pf impl d)) = 0"
      by (simp add: discover_function_simps)
    show "descriptor (function_impl (discover_function pf impl d)) \<in> set (paths handle)"
      using d(1) by (simp add: discover_function_simps)
    fix args size_a w2
    show "interface_invoke (function_interface_of (function_singleton (discover_function pf impl d)))
            pf (discover_function pf impl d) (function_impl (discover_function pf impl d))
            args size_a w2 =
          (if malloc_ok pf (allocations w2)
           then Some (Value_string (path (descriptor (function_impl (discover_function pf impl d)))))
           else None,
           w2\<lparr>allocations := Suc (allocations w2)\<rparr>)"
      using cut
      by (simp add: discover_function_simps function_file_singleton_def
          function_file_interface_invoke_def value_create_string_def malloc_def)
  qed
qed

theorem discovered_function_invoke_witness:
  "fst (file_loader_impl_load_from_package example_platform example_impl ''x/y.txt''
      example_world) = Some example_handle
   \<and> context_scope (fst (snd (file_loader_impl_discover example_platform example_impl
        example_handle example_context example_world))) ''/base/x/y.txt'' =
     Some (Value_function example_function)
   \<and> signature_count (function_signature example_function) = 0
   \<and> interface_invoke (function_interface_of (function_singleton example_function))
        example_platform example_function (function_impl example_function)
        [Value_int 1, Value_string ''ignored''] 2 example_world =
     (Some (Value_string ''/base/x/y.txt''), example_world\<lparr>allocations := 1\<rparr>)"
proof -
  let ?X = "file_loader_impl_discover example_platform example_impl
      example_handle example_context example_world"
  have l: "fst (file_loader_impl_load_from_package example_platform example_impl ''x/y.txt''
      example_world) = Some example_handle"
    by (simp add: example_defs load_defs example_handle_def)
  have x: "?X = (fst ?X, fst (snd ?X), snd (snd ?X))" by simp
  have fresh: "context_scope example_context ''/base/x/y.txt'' = None"
    by (simp add: example_context_def)
  have bound: "context_scope (fst (snd ?X)) ''/base/x/y.txt'' = Some (Value_function example_function)"
    by (simp add: discover_defs example_defs example_handle_def example_context_def
        example_function_def)
  have "fst (file_loader_impl_load_from_file example_platform example_impl [] example_world)
          = Some example_handle
        \<or> fst (file_loader_impl_load_from_package example_platform example_impl ''x/y.txt''
          example_world) = Some example_handle"
    using l by simp
  from discovered_function_invoke [OF this x fresh bound] l bound
  show ?thesis
    by (simp add: example_function_def discover_function_simps example_defs)
qed





section \<open>Properties of the float cast\<close>

text \<open>
  C8. Casting a float value to bool yields 1 for every non-zero finite magnitude, the
  fractional ones included, where truncating first would give 0 below magnitude 1.
\<close>

theorem float_to_bool_cast:
  "x \<noteq> 0 \<Longrightarrow>
     Option.bind (value_type_cast (value_create_float x) TYPE_BOOL) value_to_bool = Some 1"
  by (simp add: value_create_float_def)

theorem float_to_bool_cast_witness:
  "(100.324 :: real) \<noteq> 0
   \<and> Option.bind (value_type_cast (value_create_float 100.324) TYPE_BOOL) value_to_bool = Some 1
   \<and> Option.bind (value_type_cast (value_create_float 0.5) TYPE_BOOL) value_to_bool = Some 1
   \<and> truncated_then_compared 0.5 = 0"
  using float_to_bool_cast [of "100.324"] float_to_bool_cast [of "0.5"]
  by (simp add: truncated_then_compared_def truncate_toward_zero_def)

end
